theory Spec2Isabelle
  imports Complex_Main "HOL-Library.Sublist"
begin

section \<open>Instants, the JavaScript runtime and the date-fns operations\<close>

text \<open>
  A JavaScript \<^verbatim>\<open>Date\<close> holds one number: the milliseconds since the epoch, or NaN
  (an Invalid Date). An instant is an \<open>int\<close>; a \<open>jsdate\<close> is an instant or \<open>None\<close> for
  the Invalid Date. Every \<^verbatim>\<open>Date\<close> of the code is a \<open>jsdate\<close>.

  The numbers that the code computes from time strings are JavaScript doubles. Their
  type is the parameter \<open>'n\<close> of the runtime, which holds NaN and the infinities too,
  and the built-in operations on them are fields of the runtime:
  \<^item> \<open>Number\<close> is \<^verbatim>\<open>Number(x)\<close> for a string, or for \<^verbatim>\<open>undefined\<close> (\<open>None\<close>), which gives NaN;
  \<^item> \<open>numPlus\<close>, \<open>numDivide\<close> are \<^verbatim>\<open>+\<close> and \<^verbatim>\<open>/\<close> on doubles, \<open>numOfInt\<close> is a numeric
    literal;
  \<^item> \<open>numLess x y\<close> is \<^verbatim>\<open>x < y\<close> (and \<^verbatim>\<open>y > x\<close>), \<open>numGreaterEq x y\<close> is \<^verbatim>\<open>x >= y\<close>;
  \<^item> \<open>toInteger\<close> is the integer that a setter of \<^verbatim>\<open>Date\<close> takes from its argument
    (the double cut off towards zero), or \<open>None\<close> when the argument is NaN or infinite.

  What else the code takes from its runtime and is not part of the repository is a
  parameter as well:
  \<^item> \<open>localTime\<close> is ECMAScript's LocalTime: the wall-clock reading of an instant in the
    zone of the server process (again in milliseconds, counted as if it were UTC);
  \<^item> \<open>utcTime\<close> is ECMAScript's UTC: the instant of a wall-clock reading of that zone;
  \<^item> \<open>zoneOffset tz w\<close> is the offset from UTC (milliseconds, east positive) that
    date-fns-tz resolves for the wall-clock reading \<open>w\<close> in the zone named \<open>tz\<close>, or
    \<open>None\<close> (NaN) when \<open>tz\<close> names no zone;
  \<^item> \<open>parseDate\<close> is \<^verbatim>\<open>new Date(string)\<close>;
  \<^item> \<open>isEmail\<close> is zod's e-mail pattern;
  \<^item> \<open>loadTime\<close> is the instant at which the schema modules were evaluated (the
    \<^verbatim>\<open>new Date()\<close> in the meeting schema).
\<close>

type_synonym instant = int
type_synonym jsdate = "instant option"

record 'n runtime =
  Number :: "string option \<Rightarrow> 'n"
  numPlus :: "'n \<Rightarrow> 'n \<Rightarrow> 'n"
  numDivide :: "'n \<Rightarrow> 'n \<Rightarrow> 'n"
  numOfInt :: "int \<Rightarrow> 'n"
  numLess :: "'n \<Rightarrow> 'n \<Rightarrow> bool"
  numGreaterEq :: "'n \<Rightarrow> 'n \<Rightarrow> bool"
  toInteger :: "'n \<Rightarrow> int option"
  localTime :: "instant \<Rightarrow> int"
  utcTime :: "int \<Rightarrow> instant"
  zoneOffset :: "string \<Rightarrow> int \<Rightarrow> int option"
  parseDate :: "string \<Rightarrow> jsdate"
  isEmail :: "string \<Rightarrow> bool"
  loadTime :: instant

text \<open>An object \<^verbatim>\<open>{ start: Date, end: Date }\<close>.\<close>

record interval =
  istart :: jsdate
  iend :: jsdate

text \<open>
  \<^verbatim>\<open>Date.prototype.getDay\<close>: 0 is Sunday; the epoch day was a Thursday. On an Invalid Date
  it is NaN, which equals no number.
\<close>

definition getDay :: "'n runtime \<Rightarrow> jsdate \<Rightarrow> int option" where
  "getDay rt date = map_option (\<lambda>t. (localTime rt t div 86400000 + 4) mod 7) date"

definition isMonday :: "'n runtime \<Rightarrow> jsdate \<Rightarrow> bool" where
  "isMonday rt date = (getDay rt date = Some 1)"

definition isTuesday :: "'n runtime \<Rightarrow> jsdate \<Rightarrow> bool" where
  "isTuesday rt date = (getDay rt date = Some 2)"

definition isWednesday :: "'n runtime \<Rightarrow> jsdate \<Rightarrow> bool" where
  "isWednesday rt date = (getDay rt date = Some 3)"

definition isThursday :: "'n runtime \<Rightarrow> jsdate \<Rightarrow> bool" where
  "isThursday rt date = (getDay rt date = Some 4)"

definition isFriday :: "'n runtime \<Rightarrow> jsdate \<Rightarrow> bool" where
  "isFriday rt date = (getDay rt date = Some 5)"

definition isSaturday :: "'n runtime \<Rightarrow> jsdate \<Rightarrow> bool" where
  "isSaturday rt date = (getDay rt date = Some 6)"

definition isSunday :: "'n runtime \<Rightarrow> jsdate \<Rightarrow> bool" where
  "isSunday rt date = (getDay rt date = Some 0)"

text \<open>\<^verbatim>\<open>addMinutes\<close> on a valid date; on an Invalid Date it gives the Invalid Date.\<close>

definition addMinutes :: "instant \<Rightarrow> int \<Rightarrow> instant" where
  "addMinutes date amount = date + amount * 60000"

text \<open>
  \<^verbatim>\<open>setHours\<close> and \<^verbatim>\<open>setMinutes\<close> call \<^verbatim>\<open>Date.prototype.setHours(h)\<close> and
  \<^verbatim>\<open>setMinutes(m)\<close>: the wall-clock reading of the server's zone is taken, the one field
  is replaced (the minutes, seconds and milliseconds below it are kept), and the reading is
  turned back into an instant. An Invalid Date stays invalid, and an argument that is NaN
  or infinite makes the date invalid.
\<close>

definition setHours :: "'n runtime \<Rightarrow> jsdate \<Rightarrow> 'n \<Rightarrow> jsdate" where
  "setHours rt date hours =
     (case date of None \<Rightarrow> None
      | Some t \<Rightarrow>
          (case toInteger rt hours of None \<Rightarrow> None
           | Some h \<Rightarrow>
               (let w = localTime rt t
                in Some (utcTime rt (w div 86400000 * 86400000 + h * 3600000 + w mod 3600000)))))"

definition setMinutes :: "'n runtime \<Rightarrow> jsdate \<Rightarrow> 'n \<Rightarrow> jsdate" where
  "setMinutes rt date minutes =
     (case date of None \<Rightarrow> None
      | Some t \<Rightarrow>
          (case toInteger rt minutes of None \<Rightarrow> None
           | Some m \<Rightarrow>
               (let w = localTime rt t
                in Some (utcTime rt (w div 3600000 * 3600000 + m * 60000 + w mod 60000)))))"

text \<open>
  \<^verbatim>\<open>startOfDay\<close> is \<^verbatim>\<open>setHours(0, 0, 0, 0)\<close> and \<^verbatim>\<open>endOfDay\<close> is
  \<^verbatim>\<open>setHours(23, 59, 59, 999)\<close>, both on the wall clock of the server's zone, here on a
  valid date; on an Invalid Date they give the Invalid Date.
\<close>

definition startOfDay :: "'n runtime \<Rightarrow> instant \<Rightarrow> instant" where
  "startOfDay rt date = utcTime rt (localTime rt date div 86400000 * 86400000)"

definition endOfDay :: "'n runtime \<Rightarrow> instant \<Rightarrow> instant" where
  "endOfDay rt date = utcTime rt (localTime rt date div 86400000 * 86400000 + 86399999)"

text \<open>
  \<^verbatim>\<open>fromZonedTime(date, timeZone)\<close> of date-fns-tz reads the year, month, day, hours,
  minutes, seconds and milliseconds of \<open>date\<close> on the wall clock of the server's zone, takes
  them as a wall-clock reading of \<open>timeZone\<close>, and returns the instant of that reading.
  The result is the Invalid Date when \<open>date\<close> is, and when \<open>timeZone\<close> names no zone.
\<close>

definition fromZonedTime :: "'n runtime \<Rightarrow> jsdate \<Rightarrow> string \<Rightarrow> jsdate" where
  "fromZonedTime rt date tz =
     (case date of None \<Rightarrow> None
      | Some t \<Rightarrow>
          (let w = localTime rt t
           in case zoneOffset rt tz w of None \<Rightarrow> None | Some offset \<Rightarrow> Some (w - offset)))"

text \<open>
  \<^verbatim>\<open>isWithinInterval\<close> and \<^verbatim>\<open>areIntervalsOverlapping\<close> as date-fns has them from version 3
  on (\<^verbatim>\<open>fromZonedTime\<close> is a name of date-fns-tz 3, which is built on date-fns 3 or
  later): the two ends of an interval are sorted first, the containment test is inclusive
  at both ends, the overlap test is strict, and every comparison with an Invalid Date is
  false. Earlier versions threw a RangeError on an interval with its start after its end.
\<close>

definition isWithinInterval :: "jsdate \<Rightarrow> interval \<Rightarrow> bool" where
  "isWithinInterval date i =
     (case date of None \<Rightarrow> False
      | Some t \<Rightarrow>
     (case istart i of None \<Rightarrow> False
      | Some s \<Rightarrow>
     (case iend i of None \<Rightarrow> False
      | Some e \<Rightarrow> min s e \<le> t \<and> t \<le> max s e)))"

definition areIntervalsOverlapping :: "interval \<Rightarrow> interval \<Rightarrow> bool" where
  "areIntervalsOverlapping intervalLeft intervalRight =
     (case istart intervalLeft of None \<Rightarrow> False
      | Some ls \<Rightarrow>
     (case iend intervalLeft of None \<Rightarrow> False
      | Some le \<Rightarrow>
     (case istart intervalRight of None \<Rightarrow> False
      | Some rs \<Rightarrow>
     (case iend intervalRight of None \<Rightarrow> False
      | Some re \<Rightarrow> min ls le < max rs re \<and> min rs re < max ls le))))"

section \<open>Time strings\<close>

text \<open>\<^verbatim>\<open>String.prototype.split(":")\<close>.\<close>

fun split_on :: "char \<Rightarrow> string \<Rightarrow> string list" where
  "split_on c [] = [[]]"
| "split_on c (x # xs) =
     (if x = c then [] # split_on c xs
      else (case split_on c xs of [] \<Rightarrow> [[x]] | y # ys \<Rightarrow> (x # y) # ys))"

text \<open>
  The element of an array at an index, \<^verbatim>\<open>undefined\<close> (\<open>None\<close>) beyond its end: the
  components that the code takes from \<^verbatim>\<open>time.split(":").map(Number)\<close> are
  \<open>Number rt (part parts 0)\<close> and \<open>Number rt (part parts 1)\<close>; a component that is not
  there is \<^verbatim>\<open>undefined\<close> and counts as NaN wherever the code uses it.
\<close>

definition part :: "string list \<Rightarrow> nat \<Rightarrow> string option" where
  "part parts i = (if i < length parts then Some (parts ! i) else None)"

section \<open>The schedule tables\<close>

datatype day_of_week = Monday | Tuesday | Wednesday | Thursday | Friday | Saturday | Sunday

definition DAYS_OF_WEEK_IN_ORDER :: "day_of_week list" where
  "DAYS_OF_WEEK_IN_ORDER = [Monday, Tuesday, Wednesday, Thursday, Friday, Saturday, Sunday]"

text \<open>
  A row of \<^verbatim>\<open>ScheduleAvailabilityTable\<close> and a schedule with its rows, with the columns
  the code reads. The entries of the schedule form have the same three fields.
\<close>

record availability_row =
  dayOfWeek :: day_of_week
  startTime :: string
  endTime :: string

record full_schedule =
  timezone :: string
  availabilities :: "availability_row list"

text \<open>\<^verbatim>\<open>Object.groupBy\<close>: a key that no item has is absent from the result.\<close>

definition groupBy :: "'a list \<Rightarrow> ('a \<Rightarrow> 'k) \<Rightarrow> ('k \<Rightarrow> 'a list option)" where
  "groupBy items f =
     (\<lambda>k. let g = filter (\<lambda>x. f x = k) items in if g = [] then None else Some g)"

section \<open>The availability windows of a candidate\<close>

text \<open>
  The callback of \<^verbatim>\<open>dayAvailabilities.map\<close> in \<^verbatim>\<open>getAvailabilities\<close>: the interval of one
  row for the candidate \<open>date\<close>.
\<close>

definition availabilityInterval :: "'n runtime \<Rightarrow> jsdate \<Rightarrow> string \<Rightarrow> availability_row \<Rightarrow> interval" where
  "availabilityInterval rt date tz a =
     (let startParts = split_on (CHR '':'') (startTime a);
          endParts = split_on (CHR '':'') (endTime a);
          startHour = Number rt (part startParts 0);
          startMinute = Number rt (part startParts 1);
          endHour = Number rt (part endParts 0);
          endMinute = Number rt (part endParts 1)
      in \<lparr>istart = fromZonedTime rt (setMinutes rt (setHours rt date startHour) startMinute) tz,
          iend = fromZonedTime rt (setMinutes rt (setHours rt date endHour) endMinute) tz\<rparr>)"

text \<open>
  The function that \<^verbatim>\<open>getAvailabilities\<close> calls on the spot to compute \<^verbatim>\<open>dayOfWeek\<close>;
  \<open>None\<close> is its \<^verbatim>\<open>null\<close>.
\<close>

definition dayOfWeekOf :: "'n runtime \<Rightarrow> jsdate \<Rightarrow> day_of_week option" where
  "dayOfWeekOf rt date =
     (if isMonday rt date then Some Monday
      else if isTuesday rt date then Some Tuesday
      else if isWednesday rt date then Some Wednesday
      else if isThursday rt date then Some Thursday
      else if isFriday rt date then Some Friday
      else if isSaturday rt date then Some Saturday
      else if isSunday rt date then Some Sunday
      else None)"

definition getAvailabilities ::
  "'n runtime \<Rightarrow> (day_of_week \<Rightarrow> availability_row list option) \<Rightarrow> jsdate \<Rightarrow> string \<Rightarrow> interval list"
where
  "getAvailabilities rt groupedAvailabilities date tz =
     (let dayOfWeek = dayOfWeekOf rt date
      in case dayOfWeek of None \<Rightarrow> []
         | Some d \<Rightarrow>
            (case groupedAvailabilities d of None \<Rightarrow> []
             | Some dayAvailabilities \<Rightarrow> map (availabilityInterval rt date tz) dayAvailabilities))"

text \<open>
  The callback of \<^verbatim>\<open>timesInOrder.filter\<close> in \<^verbatim>\<open>getValidTimesFromSchedule\<close>: the candidate
  is kept when no calendar event overlaps the proposed event and one availability window
  holds both its start and its end.
\<close>

definition keepTime ::
  "'n runtime \<Rightarrow> (day_of_week \<Rightarrow> availability_row list option) \<Rightarrow> string \<Rightarrow> interval list \<Rightarrow> int
     \<Rightarrow> jsdate \<Rightarrow> bool"
where
  "keepTime rt groupedAvailabilities tz eventTimes durationInMinutes intervalDate =
     (let availabilities = getAvailabilities rt groupedAvailabilities intervalDate tz;
          eventInterval =
            \<lparr>istart = intervalDate,
             iend = map_option (\<lambda>t. addMinutes t durationInMinutes) intervalDate\<rparr>
      in list_all (\<lambda>eventTime. \<not> areIntervalsOverlapping eventTime eventInterval) eventTimes \<and>
         list_ex (\<lambda>availability.
             isWithinInterval (istart eventInterval) availability \<and>
             isWithinInterval (iend eventInterval) availability)
           availabilities)"

section \<open>The world outside: database, Clerk and the Google calendar\<close>

text \<open>
  A thrown \<^verbatim>\<open>Error\<close> with its message. A call that may throw returns \<open>js_error + 'a\<close>.
\<close>

datatype js_error = Error string

text \<open>\<^verbatim>\<open>err.message || err\<close> inside a template string: an empty message is falsy, and the
  error itself then prints as its name.\<close>

definition messageOr :: "string \<Rightarrow> string" where
  "messageOr m = (if m = [] then ''Error'' else m)"

text \<open>\<^verbatim>\<open>calendar_v3.Schema$EventDateTime\<close> and the fields of a calendar event that are read.\<close>

record event_date_time =
  date :: "string option"
  dateTime :: "string option"

record calendar_event =
  eventStart :: "event_date_time option"
  eventEnd :: "event_date_time option"

text \<open>A row of \<^verbatim>\<open>EventTable\<close>.\<close>

record event_row =
  eventRowId :: string
  eventName :: string
  durationInMinutes :: int
  clerkUserId :: string
  isActive :: bool

text \<open>The Clerk user: the id of the primary e-mail address and the addresses with their ids.\<close>

record clerk_user =
  primaryEmailAddressId :: "string option"
  emailAddresses :: "(string \<times> string) list"

text \<open>The body of the \<^verbatim>\<open>events.insert\<close> request, as far as it depends on the booking.\<close>

record insert_request =
  calendarOwner :: string
  guestAddress :: string
  requestStart :: instant
  requestEnd :: instant

text \<open>
  The calls that leave the process, in the order in which they are made. Only
  \<open>EventsInsert\<close> writes.
\<close>

datatype effect =
    FindSchedule string
  | FindEvent string string
  | GetUserOauthAccessToken string
  | EventsList string instant instant
  | GetUser string
  | EventsInsert insert_request
  | ConsoleError string

text \<open>
  What the outside answers at the moment of a call: each field is the result of the call
  of that name, or the error it throws.
\<close>

record world =
  findSchedule :: "string \<Rightarrow> js_error + full_schedule option"
  eventTable :: "js_error + event_row list"
  getUserOauthAccessToken :: "string \<Rightarrow> js_error + string list"
  eventsList :: "string \<Rightarrow> instant \<Rightarrow> instant \<Rightarrow> js_error + calendar_event list option"
  getUser :: "string \<Rightarrow> js_error + clerk_user"
  eventsInsert :: "insert_request \<Rightarrow> js_error + unit"

type_synonym 'a outcome = "(js_error + 'a) \<times> effect list"

section \<open>The busy intervals of the calendar\<close>

definition getOAuthClient :: "world \<Rightarrow> string \<Rightarrow> string outcome" where
  "getOAuthClient w user =
     (case getUserOauthAccessToken w user of
        Inl (Error m) \<Rightarrow>
          (Inl (Error (''Failed to get OAuth client: '' @ m)), [GetUserOauthAccessToken user])
      | Inr tokens \<Rightarrow>
          (case tokens of
             [] \<Rightarrow>
               (Inl (Error (''Failed to get OAuth client: '' @
                            ''No OAuth data or token found for the user.'')),
                [GetUserOauthAccessToken user])
           | token # _ \<Rightarrow>
               if token = []
               then (Inl (Error (''Failed to get OAuth client: '' @
                                 ''No OAuth data or token found for the user.'')),
                     [GetUserOauthAccessToken user])
               else (Inr token, [GetUserOauthAccessToken user])))"

text \<open>A string field that is present and not empty (truthy).\<close>

definition truthy :: "string option \<Rightarrow> bool" where
  "truthy v = (case v of None \<Rightarrow> False | Some s \<Rightarrow> s \<noteq> [])"

text \<open>
  The callback of \<^verbatim>\<open>events.data.items?.map\<close>: the busy interval of one calendar item, or
  \<^verbatim>\<open>undefined\<close> (\<open>None\<close>) when the item has neither both dates nor both date-times.
  \<^verbatim>\<open>event.start?.date\<close> is \<open>Option.bind (eventStart event) date\<close>.
\<close>

definition eventTimeOf :: "'n runtime \<Rightarrow> calendar_event \<Rightarrow> interval option" where
  "eventTimeOf rt event =
     (let startDate = Option.bind (eventStart event) date;
          endDate = Option.bind (eventEnd event) date;
          startDateTime = Option.bind (eventStart event) dateTime;
          endDateTime = Option.bind (eventEnd event) dateTime
      in if truthy startDate \<and> truthy endDate
         then Some \<lparr>istart = map_option (startOfDay rt) (Option.bind startDate (parseDate rt)),
                    iend = map_option (endOfDay rt) (Option.bind endDate (parseDate rt))\<rparr>
         else if truthy startDateTime \<and> truthy endDateTime
         then Some \<lparr>istart = Option.bind startDateTime (parseDate rt),
                    iend = Option.bind endDateTime (parseDate rt)\<rparr>
         else None)"

text \<open>
  The dates of the range are written into the request by \<^verbatim>\<open>toISOString\<close>, which throws a
  RangeError on an Invalid Date; this happens after the token is fetched and before the
  request is sent.
\<close>

definition getCalendarEventTimes ::
  "'n runtime \<Rightarrow> world \<Rightarrow> string \<Rightarrow> jsdate \<Rightarrow> jsdate \<Rightarrow> interval list outcome"
where
  "getCalendarEventTimes rt w user rangeStart rangeEnd =
     (case getOAuthClient w user of
        (Inl (Error m), fx) \<Rightarrow>
          (Inl (Error (''Failed to fetch calendar events: '' @ messageOr m)), fx)
      | (Inr oAuthClient, fx) \<Rightarrow>
          (case rangeStart of
             None \<Rightarrow> (Inl (Error (''Failed to fetch calendar events: '' @ ''Invalid time value'')), fx)
           | Some timeMin \<Rightarrow>
          (case rangeEnd of
             None \<Rightarrow> (Inl (Error (''Failed to fetch calendar events: '' @ ''Invalid time value'')), fx)
           | Some timeMax \<Rightarrow>
          (case eventsList w user timeMin timeMax of
             Inl (Error m) \<Rightarrow>
               (Inl (Error (''Failed to fetch calendar events: '' @ messageOr m)),
                fx @ [EventsList user timeMin timeMax])
           | Inr items \<Rightarrow>
               (Inr (case items of
                       None \<Rightarrow> []
                     | Some events \<Rightarrow>
                         map the (filter (\<lambda>d. d \<noteq> None) (map (eventTimeOf rt) events))),
                fx @ [EventsList user timeMin timeMax])))))"

section \<open>The resolver\<close>

definition getSchedule :: "world \<Rightarrow> string \<Rightarrow> full_schedule option outcome" where
  "getSchedule w userId = (findSchedule w userId, [FindSchedule userId])"

text \<open>
  The candidates are \<^verbatim>\<open>Date\<close> objects, so \<^verbatim>\<open>!start || !end\<close> holds for the empty list
  only: an Invalid Date is an object too.
\<close>

definition getValidTimesFromSchedule ::
  "'n runtime \<Rightarrow> world \<Rightarrow> jsdate list \<Rightarrow> event_row \<Rightarrow> jsdate list outcome"
where
  "getValidTimesFromSchedule rt w timesInOrder event =
     (let userId = clerkUserId event
      in case timesInOrder of
           [] \<Rightarrow> (Inr [], [])
         | first # _ \<Rightarrow>
             (case getSchedule w userId of
                (Inl e, fx) \<Rightarrow> (Inl e, fx)
              | (Inr None, fx) \<Rightarrow> (Inr [], fx)
              | (Inr (Some schedule), fx) \<Rightarrow>
                  (let groupedAvailabilities = groupBy (availabilities schedule) dayOfWeek
                   in case getCalendarEventTimes rt w userId first (last timesInOrder) of
                        (Inl e, fx') \<Rightarrow> (Inl e, fx @ fx')
                      | (Inr eventTimes, fx') \<Rightarrow>
                          (Inr (filter (keepTime rt groupedAvailabilities (timezone schedule)
                                          eventTimes (durationInMinutes event))
                                  timesInOrder),
                           fx @ fx'))))"

section \<open>Creating a meeting\<close>

text \<open>The data submitted with a booking (\<^verbatim>\<open>meetingActionSchema\<close>).\<close>

record meeting_data =
  m_eventId :: string
  m_clerkUserId :: string
  m_startTime :: instant
  m_guestEmail :: string
  m_guestName :: string
  m_guestNotes :: "string option"
  m_timezone :: string

definition meetingActionSchema :: "'n runtime \<Rightarrow> meeting_data \<Rightarrow> bool" where
  "meetingActionSchema rt data =
     (m_eventId data \<noteq> [] \<and> m_clerkUserId data \<noteq> [] \<and>
      loadTime rt \<le> m_startTime data \<and>
      isEmail rt (m_guestEmail data) \<and> m_guestEmail data \<noteq> [] \<and>
      m_guestName data \<noteq> [] \<and> m_timezone data \<noteq> [])"

text \<open>
  The arguments of \<^verbatim>\<open>createCalendarEvent\<close> that decide what is written. The request
  body holds \<^verbatim>\<open>startTime.toISOString()\<close>, which throws on an Invalid Date before the
  request is sent.
\<close>

record calendar_event_input =
  c_clerkUserId :: string
  c_guestEmail :: string
  c_startTime :: jsdate
  c_durationInMinutes :: int

definition createCalendarEvent :: "world \<Rightarrow> calendar_event_input \<Rightarrow> unit outcome" where
  "createCalendarEvent w input =
     (let user = c_clerkUserId input;
          failed = (\<lambda>m fx.
            (Inl (Error (''Failed to create calendar event: '' @ messageOr m)),
             fx @ [ConsoleError (''Error creating calendar event: '' @ messageOr m)]))
      in case getOAuthClient w user of
           (Inl (Error m), fx) \<Rightarrow> failed m fx
         | (Inr oAuthClient, fx) \<Rightarrow>
             (case getUser w user of
                Inl (Error m) \<Rightarrow> failed m (fx @ [GetUser user])
              | Inr calendarUser \<Rightarrow>
                  (case find (\<lambda>(i, a). Some i = primaryEmailAddressId calendarUser)
                          (emailAddresses calendarUser) of
                     None \<Rightarrow> failed ''Clerk user has no email'' (fx @ [GetUser user])
                   | Some primaryEmail \<Rightarrow>
                       (case c_startTime input of
                          None \<Rightarrow> failed ''Invalid time value'' (fx @ [GetUser user])
                        | Some start \<Rightarrow>
                            (let request = \<lparr>calendarOwner = user,
                                             guestAddress = c_guestEmail input,
                                             requestStart = start,
                                             requestEnd = addMinutes start
                                                            (c_durationInMinutes input)\<rparr>
                             in case eventsInsert w request of
                                  Inl (Error m) \<Rightarrow>
                                    failed m (fx @ [GetUser user, EventsInsert request])
                                | Inr u \<Rightarrow>
                                    (Inr (), fx @ [GetUser user, EventsInsert request]))))))"

definition createMeeting ::
  "'n runtime \<Rightarrow> world \<Rightarrow> meeting_data \<Rightarrow> (string \<times> string \<times> instant) outcome"
where
  "createMeeting rt w unsafeData =
     (let failed = (\<lambda>m fx.
            (Inl (Error (''Failed to create meeting: '' @ messageOr m)),
             fx @ [ConsoleError (''Error creating meeting: '' @ messageOr m)]));
          lookup = FindEvent (m_clerkUserId unsafeData) (m_eventId unsafeData)
      in if \<not> meetingActionSchema rt unsafeData then failed ''Invalid data.'' []
         else
           (case eventTable w of
              Inl (Error m) \<Rightarrow> failed m [lookup]
            | Inr rows \<Rightarrow>
                (case find (\<lambda>e. isActive e \<and> clerkUserId e = m_clerkUserId unsafeData \<and>
                                  eventRowId e = m_eventId unsafeData) rows of
                   None \<Rightarrow> failed ''Event not found.'' [lookup]
                 | Some event \<Rightarrow>
                     (let startInTimezone =
                            fromZonedTime rt (Some (m_startTime unsafeData))
                              (m_timezone unsafeData)
                      in case getValidTimesFromSchedule rt w [startInTimezone] event of
                           (Inl (Error m), fx) \<Rightarrow> failed m (lookup # fx)
                         | (Inr validTimes, fx) \<Rightarrow>
                             if length validTimes = 0
                             then failed ''Selected time is not valid.'' (lookup # fx)
                             else
                               (case createCalendarEvent w
                                       \<lparr>c_clerkUserId = m_clerkUserId unsafeData,
                                        c_guestEmail = m_guestEmail unsafeData,
                                        c_startTime = startInTimezone,
                                        c_durationInMinutes = durationInMinutes event\<rparr> of
                                  (Inl (Error m), fx') \<Rightarrow> failed m (lookup # fx @ fx')
                                | (Inr u, fx') \<Rightarrow>
                                    (Inr (m_clerkUserId unsafeData, m_eventId unsafeData,
                                          m_startTime unsafeData),
                                     lookup # fx @ fx'))))))"

section \<open>The schedule form\<close>

text \<open>
  The patterns of the form are built from character ranges, single characters, sequence
  and alternative. \<open>residuals r s\<close> lists what is left of \<open>s\<close> after each way in which a
  prefix of \<open>s\<close> matches \<open>r\<close>; a pattern between \<^verbatim>\<open>^\<close> and \<^verbatim>\<open>$\<close> matches when it can
  use up the whole string.
\<close>

datatype regex =
    Range char char
  | Lit char
  | Seq regex regex
  | Alt regex regex

fun residuals :: "regex \<Rightarrow> string \<Rightarrow> string list" where
  "residuals (Range lo hi) s =
     (case s of [] \<Rightarrow> []
      | c # cs \<Rightarrow>
          if (of_char lo :: nat) \<le> of_char c \<and> (of_char c :: nat) \<le> of_char hi then [cs] else [])"
| "residuals (Lit a) s = (case s of [] \<Rightarrow> [] | c # cs \<Rightarrow> if c = a then [cs] else [])"
| "residuals (Seq r1 r2) s = concat (map (residuals r2) (residuals r1 s))"
| "residuals (Alt r1 r2) s = residuals r1 s @ residuals r2 s"

definition regexTest :: "regex \<Rightarrow> string \<Rightarrow> bool" where
  "regexTest r s = ([] \<in> set (residuals r s))"

text \<open>\<^verbatim>\<open>/^([0-9]|0[0-9]|1[0-9]|2[0-3]):[0-5][0-9]$/\<close>\<close>

definition timePattern :: regex where
  "timePattern =
     Seq (Alt (Range (CHR ''0'') (CHR ''9''))
         (Alt (Seq (Lit (CHR ''0'')) (Range (CHR ''0'') (CHR ''9'')))
         (Alt (Seq (Lit (CHR ''1'')) (Range (CHR ''0'') (CHR ''9'')))
              (Seq (Lit (CHR ''2'')) (Range (CHR ''0'') (CHR ''3''))))))
         (Seq (Lit (CHR '':'')) (Seq (Range (CHR ''0'') (CHR ''5'')) (Range (CHR ''0'') (CHR ''9''))))"

text \<open>\<^verbatim>\<open>timeToFloat\<close>: hours plus minutes over 60, in the doubles of the runtime.\<close>

definition timeToFloat :: "'n runtime \<Rightarrow> string \<Rightarrow> 'n" where
  "timeToFloat rt time =
     (let parts = split_on (CHR '':'') time;
          hours = Number rt (part parts 0);
          minutes = Number rt (part parts 1)
      in numPlus rt hours (numDivide rt minutes (numOfInt rt 60)))"

text \<open>An issue added by \<^verbatim>\<open>ctx.addIssue\<close>: its message and its path (index and field).\<close>

record issue =
  message :: string
  pathIndex :: nat
  pathField :: string

text \<open>
  The \<^verbatim>\<open>superRefine\<close> callback of \<^verbatim>\<open>scheduleFormSchema\<close>: the issues in the order in which
  \<^verbatim>\<open>forEach\<close> adds them. The submitted \<^verbatim>\<open>availabilities\<close> are \<open>entries\<close>;
  \<open>overlapsAt\<close> is the \<^verbatim>\<open>some\<close> that computes \<^verbatim>\<open>overlaps\<close> for the entry at \<open>index\<close>;
  its second comparison \<^verbatim>\<open>x > y\<close> is \<^verbatim>\<open>y < x\<close>.
\<close>

definition overlapsAt :: "'n runtime \<Rightarrow> availability_row list \<Rightarrow> nat \<Rightarrow> availability_row \<Rightarrow> bool" where
  "overlapsAt rt entries index availability =
     list_ex (\<lambda>(i, a).
         i \<noteq> index \<and>
         dayOfWeek a = dayOfWeek availability \<and>
         numLess rt (timeToFloat rt (startTime a)) (timeToFloat rt (endTime availability)) \<and>
         numLess rt (timeToFloat rt (startTime availability)) (timeToFloat rt (endTime a)))
       (enumerate 0 entries)"

definition superRefine :: "'n runtime \<Rightarrow> availability_row list \<Rightarrow> issue list" where
  "superRefine rt entries =
     concat (map (\<lambda>(index, availability).
         (if overlapsAt rt entries index availability
          then [\<lparr>message = ''Availability overlaps with another'',
                  pathIndex = index, pathField = ''startTime''\<rparr>]
          else []) @
         (if numGreaterEq rt (timeToFloat rt (startTime availability))
               (timeToFloat rt (endTime availability))
          then [\<lparr>message = ''End time must be after start time'',
                  pathIndex = index, pathField = ''endTime''\<rparr>]
          else []))
       (enumerate 0 entries))"

section \<open>A server on UTC and a small world\<close>

text \<open>
  The zones used in the examples: \<^verbatim>\<open>America/New_York\<close> in 2024 (daylight time, four
  hours behind UTC, between the wall-clock readings 10 March 02:00 and 3 November 02:00;
  five hours behind otherwise) and \<^verbatim>\<open>UTC\<close>; any other name is taken for no zone.
\<close>

definition exampleZones :: "string \<Rightarrow> int \<Rightarrow> int option" where
  "exampleZones tz w =
     (if tz = ''America/New_York''
      then Some (if 1710036000000 \<le> w \<and> w < 1730599200000 then - 14400000 else - 18000000)
      else if tz = ''UTC'' then Some 0
      else None)"

text \<open>
  The numbers of the examples: a fraction, or \<open>None\<close> for NaN. \<open>exampleNumber\<close> is
  \<^verbatim>\<open>Number\<close> on the strings that the examples use, which are strings of decimal
  digits (the empty string is 0).
\<close>

definition isDigit :: "char \<Rightarrow> bool" where
  "isDigit c = (48 \<le> (of_char c :: nat) \<and> (of_char c :: nat) \<le> 57)"

definition digitValue :: "char \<Rightarrow> int" where
  "digitValue c = int (of_char c) - 48"

definition exampleNumber :: "string option \<Rightarrow> rat option" where
  "exampleNumber x =
     (case x of None \<Rightarrow> None
      | Some s \<Rightarrow>
          if list_all isDigit s
          then Some (of_int (foldl (\<lambda>a c. 10 * a + digitValue c) 0 s))
          else None)"

definition lift2 :: "('a \<Rightarrow> 'b \<Rightarrow> 'c) \<Rightarrow> 'a option \<Rightarrow> 'b option \<Rightarrow> 'c option" where
  "lift2 f a b =
     (case a of None \<Rightarrow> None
      | Some x \<Rightarrow> (case b of None \<Rightarrow> None | Some y \<Rightarrow> Some (f x y)))"

definition holds2 :: "('a \<Rightarrow> 'b \<Rightarrow> bool) \<Rightarrow> 'a option \<Rightarrow> 'b option \<Rightarrow> bool" where
  "holds2 p a b =
     (case a of None \<Rightarrow> False
      | Some x \<Rightarrow> (case b of None \<Rightarrow> False | Some y \<Rightarrow> p x y))"

text \<open>
  A server process whose own zone is UTC; \<^verbatim>\<open>new Date\<close> on the date strings of the
  examples.
\<close>

definition exampleDates :: "string \<Rightarrow> jsdate" where
  "exampleDates s =
     (if s = ''2024-06-10'' then Some 1717977600000
      else if s = ''2024-06-11'' then Some 1718064000000
      else if s = ''2024-06-10T10:00:00Z'' then Some 1718013600000
      else if s = ''2024-06-10T10:30:00Z'' then Some 1718015400000
      else None)"

definition utcServer :: "rat option runtime" where
  "utcServer =
     \<lparr>Number = exampleNumber,
      numPlus = lift2 (+),
      numDivide = lift2 (\<lambda>x y. x / y),
      numOfInt = (\<lambda>i. Some (of_int i)),
      numLess = holds2 (<),
      numGreaterEq = holds2 (\<ge>),
      toInteger = map_option (\<lambda>q. if 0 \<le> q then \<lfloor>q\<rfloor> else \<lceil>q\<rceil>),
      localTime = (\<lambda>t. t), utcTime = (\<lambda>w. w), zoneOffset = exampleZones,
      parseDate = exampleDates, isEmail = (\<lambda>s. True), loadTime = 0\<rparr>"

text \<open>Monday 10 June 2024, 00:00 UTC, and a time of that day.\<close>

definition monday :: instant where
  "monday = 1717977600000"

definition mondayAt :: "int \<Rightarrow> int \<Rightarrow> instant" where
  "mondayAt h m = monday + h * 3600000 + m * 60000"

definition halfHourEvent :: event_row where
  "halfHourEvent = \<lparr>eventRowId = ''e1'', eventName = ''Intro call'', durationInMinutes = 30,
                     clerkUserId = ''owner'', isActive = True\<rparr>"

text \<open>
  A world in which the owner has the given schedule, the given Google tokens and the
  given items in the calendar, and in which the half-hour event is the one active event.
\<close>

definition worldWith :: "full_schedule option \<Rightarrow> string list \<Rightarrow> calendar_event list \<Rightarrow> world" where
  "worldWith schedule tokens items =
     \<lparr>findSchedule = (\<lambda>u. Inr (if u = ''owner'' then schedule else None)),
      eventTable = Inr [halfHourEvent],
      getUserOauthAccessToken = (\<lambda>u. Inr tokens),
      eventsList = (\<lambda>u a b. Inr (Some items)),
      getUser = (\<lambda>u. Inr \<lparr>primaryEmailAddressId = Some ''m1'',
                            emailAddresses = [(''m1'', ''owner@example.org'')]\<rparr>),
      eventsInsert = (\<lambda>r. Inr ())\<rparr>"

text \<open>
  The owner is available on Mondays from 09:00 to 17:00 (UTC) and has one calendar item
  on that Monday from 10:00 to 10:30.
\<close>

definition scenarioSchedule :: full_schedule where
  "scenarioSchedule =
     \<lparr>timezone = ''UTC'',
      availabilities = [\<lparr>dayOfWeek = Monday, startTime = ''09:00'', endTime = ''17:00''\<rparr>]\<rparr>"

definition busyItem :: calendar_event where
  "busyItem =
     \<lparr>eventStart = Some \<lparr>date = None, dateTime = Some ''2024-06-10T10:00:00Z''\<rparr>,
      eventEnd = Some \<lparr>date = None, dateTime = Some ''2024-06-10T10:30:00Z''\<rparr>\<rparr>"

definition scenarioB :: world where
  "scenarioB = worldWith (Some scenarioSchedule) [''token''] [busyItem]"

text \<open>
  An owner in New York who is available on Sunday evenings, from 20:00 to 23:00.
\<close>

definition eveningSchedule :: full_schedule where
  "eveningSchedule =
     \<lparr>timezone = ''America/New_York'',
      availabilities = [\<lparr>dayOfWeek = Sunday, startTime = ''20:00'', endTime = ''23:00''\<rparr>]\<rparr>"

definition eveningWorld :: world where
  "eveningWorld = worldWith (Some eveningSchedule) [''token''] []"

text \<open>
  An owner in New York who is available on Mondays from midnight to 02:00, and a server
  process on Pacific daylight time (seven hours behind UTC), otherwise as \<open>utcServer\<close>.
\<close>

definition midnightSchedule :: full_schedule where
  "midnightSchedule =
     \<lparr>timezone = ''America/New_York'',
      availabilities = [\<lparr>dayOfWeek = Monday, startTime = ''00:00'', endTime = ''02:00''\<rparr>]\<rparr>"

definition midnightWorld :: world where
  "midnightWorld = worldWith (Some midnightSchedule) [''token''] []"

definition pacificServer :: "rat option runtime" where
  "pacificServer = utcServer\<lparr>localTime := (\<lambda>t. t - 25200000), utcTime := (\<lambda>w. w + 25200000)\<rparr>"





text \<open>
  An owner whose schedule has no rule: without a Google token, with one, and an owner
  with no schedule at all.
\<close>

definition emptySchedule :: full_schedule where
  "emptySchedule = \<lparr>timezone = ''UTC'', availabilities = []\<rparr>"

definition noTokenWorld :: world where
  "noTokenWorld = worldWith (Some emptySchedule) [] []"

definition noScheduleWorld :: world where
  "noScheduleWorld = worldWith None [''token''] []"

definition emptyRulesWorld :: world where
  "emptyRulesWorld = worldWith (Some emptySchedule) [''token''] []"

text \<open>
  The instant that \<^verbatim>\<open>createMeeting\<close> re-checks and the row that its event query finds
  (\<open>None\<close> also when the query throws); a booking of the half-hour event by a guest.
\<close>

abbreviation chosenInstant :: "'n runtime \<Rightarrow> meeting_data \<Rightarrow> jsdate" where
  "chosenInstant rt d \<equiv> fromZonedTime rt (Some (m_startTime d)) (m_timezone d)"

abbreviation bookedEvent :: "world \<Rightarrow> meeting_data \<Rightarrow> event_row option" where
  "bookedEvent w d \<equiv>
     (case eventTable w of
        Inl e \<Rightarrow> None
      | Inr rows \<Rightarrow>
          find (\<lambda>e. isActive e \<and> clerkUserId e = m_clerkUserId d \<and> eventRowId e = m_eventId d)
            rows)"

definition bookingAt :: "instant \<Rightarrow> meeting_data" where
  "bookingAt t =
     \<lparr>m_eventId = ''e1'', m_clerkUserId = ''owner'', m_startTime = t,
      m_guestEmail = ''guest@example.org'', m_guestName = ''Guest'', m_guestNotes = None,
      m_timezone = ''UTC''\<rparr>"

text \<open>
  The time strings of the form H:MM or HH:MM, written out without the pattern: one or two
  digits of hours, a colon and two digits of minutes, with the hours from 0 to 23 and the
  minutes from 00 to 59.
\<close>

definition timeOfDay :: "string \<Rightarrow> bool" where
  "timeOfDay s =
     (case s of
        [h, c, m1, m2] \<Rightarrow>
          isDigit h \<and> c = CHR '':'' \<and>
          isDigit m1 \<and> isDigit m2 \<and> 10 * digitValue m1 + digitValue m2 \<le> 59
      | [h1, h2, c, m1, m2] \<Rightarrow>
          isDigit h1 \<and> isDigit h2 \<and> 10 * digitValue h1 + digitValue h2 \<le> 23 \<and> c = CHR '':'' \<and>
          isDigit m1 \<and> isDigit m2 \<and> 10 * digitValue m1 + digitValue m2 \<le> 59
      | _ \<Rightarrow> False)"

text \<open>
  Two rules of the same Monday that overlap, and the issue that \<^verbatim>\<open>superRefine\<close> adds
  for the rule at an index that overlaps another.
\<close>

definition mondayMorning :: availability_row where
  "mondayMorning = \<lparr>dayOfWeek = Monday, startTime = ''09:00'', endTime = ''11:00''\<rparr>"

definition mondayNoon :: availability_row where
  "mondayNoon = \<lparr>dayOfWeek = Monday, startTime = ''10:00'', endTime = ''12:00''\<rparr>"

definition overlapIssue :: "nat \<Rightarrow> issue" where
  "overlapIssue index = \<lparr>message = ''Availability overlaps with another'',
                          pathIndex = index, pathField = ''startTime''\<rparr>"




section \<open>Facts about the resolver\<close>

lemma count_list_filter_le: "count_list (filter P xs) x \<le> count_list xs x"
  by (induction xs) auto

lemma getValidTimesFromSchedule_nonempty:
  assumes "timesInOrder \<noteq> []"
  shows "getValidTimesFromSchedule rt w timesInOrder event =
     (case findSchedule w (clerkUserId event) of
        Inl e \<Rightarrow> (Inl e, [FindSchedule (clerkUserId event)])
      | Inr None \<Rightarrow> (Inr [], [FindSchedule (clerkUserId event)])
      | Inr (Some schedule) \<Rightarrow>
          (case getCalendarEventTimes rt w (clerkUserId event) (hd timesInOrder)
                  (last timesInOrder) of
             (Inl e, fx') \<Rightarrow> (Inl e, FindSchedule (clerkUserId event) # fx')
           | (Inr eventTimes, fx') \<Rightarrow>
               (Inr (filter (keepTime rt (groupBy (availabilities schedule) dayOfWeek)
                               (timezone schedule) eventTimes (durationInMinutes event))
                       timesInOrder),
                FindSchedule (clerkUserId event) # fx')))"
proof -
  obtain first rest where ts: "timesInOrder = first # rest"
    using assms by (cases timesInOrder) auto
  have hd: "hd timesInOrder = first" by (simp add: ts)
  show ?thesis
    unfolding getValidTimesFromSchedule_def getSchedule_def Let_def hd
    by (simp add: ts split: sum.splits option.splits prod.splits del: filter.simps last.simps)
qed

lemma resolver_result:
  assumes run: "getValidTimesFromSchedule rt w timesInOrder event = (Inr out, fx)"
    and ne: "out \<noteq> []"
  obtains schedule eventTimes fx' where
    "findSchedule w (clerkUserId event) = Inr (Some schedule)"
    "getCalendarEventTimes rt w (clerkUserId event) (hd timesInOrder) (last timesInOrder)
       = (Inr eventTimes, fx')"
    "fx = FindSchedule (clerkUserId event) # fx'"
    "out = filter (keepTime rt (groupBy (availabilities schedule) dayOfWeek)
                     (timezone schedule) eventTimes (durationInMinutes event))
             timesInOrder"
proof -
  have "timesInOrder \<noteq> []"
    using run ne by (auto simp: getValidTimesFromSchedule_def)
  from getValidTimesFromSchedule_nonempty [OF this, of rt w event] run ne that
  show ?thesis
    by (auto split: sum.splits option.splits prod.splits simp del: filter.simps)
qed

lemma overlap_of_strict:
  assumes "s < addMinutes t d" and "t < e"
  shows "areIntervalsOverlapping \<lparr>istart = Some s, iend = Some e\<rparr>
           \<lparr>istart = Some t, iend = Some (addMinutes t d)\<rparr>"
  using assms by (auto simp: areIntervalsOverlapping_def min_def max_def)

lemma keepTime_busy:
  assumes "keepTime rt g tz eventTimes d (Some t)" and "b \<in> set eventTimes"
    and "istart b = Some s" and "iend b = Some e"
  shows "\<not> (s < addMinutes t d \<and> t < e)"
proof
  assume "s < addMinutes t d \<and> t < e"
  then have "areIntervalsOverlapping \<lparr>istart = Some s, iend = Some e\<rparr>
           \<lparr>istart = Some t, iend = Some (addMinutes t d)\<rparr>"
    using overlap_of_strict by blast
  moreover have "b = \<lparr>istart = Some s, iend = Some e\<rparr>"
    using assms(3,4) by (cases b) simp
  ultimately show False
    using assms(1,2) by (auto simp: keepTime_def Let_def list_all_iff)
qed

lemma touching_no_overlap:
  assumes "s \<le> e" and "0 \<le> d" and "s = addMinutes t d \<or> e = t"
  shows "\<not> areIntervalsOverlapping \<lparr>istart = Some s, iend = Some e\<rparr>
           \<lparr>istart = Some t, iend = Some (addMinutes t d)\<rparr>"
  using assms by (auto simp: areIntervalsOverlapping_def min_def max_def addMinutes_def)



lemma keepTime_antitone:
  assumes "0 \<le> d1" and "d1 \<le> d2" and "keepTime rt g tz eventTimes d2 x"
  shows "keepTime rt g tz eventTimes d1 x"
proof (cases x)
  case None
  with assms(3) show ?thesis
    by (simp add: keepTime_def Let_def isWithinInterval_def list_ex_iff)
next
  case (Some t)
  have a: "addMinutes t d1 \<le> addMinutes t d2" "t \<le> addMinutes t d1"
    using assms(1,2) by (simp_all add: addMinutes_def)
  have busy: "\<not> areIntervalsOverlapping b \<lparr>istart = Some t, iend = Some (addMinutes t d1)\<rparr>"
    if "\<not> areIntervalsOverlapping b \<lparr>istart = Some t, iend = Some (addMinutes t d2)\<rparr>" for b
    using that a by (auto simp: areIntervalsOverlapping_def min_def max_def split: option.splits if_splits)
  have win: "isWithinInterval (Some (addMinutes t d1)) v"
    if "isWithinInterval (Some t) v" "isWithinInterval (Some (addMinutes t d2)) v" for v
    using that a by (auto simp: isWithinInterval_def split: option.splits)
  show ?thesis
    using assms(3) busy win
    by (auto simp: Some keepTime_def Let_def list_all_iff list_ex_iff)
qed


lemma subseq_filter_mono:
  assumes "\<And>x. P x \<Longrightarrow> Q x"
  shows "subseq (filter P xs) (filter Q xs)"
proof -
  have "filter P xs = filter P (filter Q xs)"
    using assms by (auto intro: filter_cong)
  then show ?thesis
    by (metis subseq_filter_left)
qed

subsection \<open>The example runs\<close>

lemma scenarioB_run:
  "getValidTimesFromSchedule utcServer scenarioB [Some (mondayAt 9 30), Some (mondayAt 10 0)] halfHourEvent =
     (Inr [Some (mondayAt 9 30)],
      [FindSchedule ''owner'', GetUserOauthAccessToken ''owner'',
       EventsList ''owner'' (mondayAt 9 30) (mondayAt 10 0)])"
  by code_simp


lemma scenarioB_busy:
  "getCalendarEventTimes utcServer scenarioB (clerkUserId halfHourEvent)
      (hd [Some (mondayAt 9 30), Some (mondayAt 10 0)]) (last [Some (mondayAt 9 30), Some (mondayAt 10 0)]) =
     (Inr [\<lparr>istart = Some (mondayAt 10 0), iend = Some (mondayAt 10 30)\<rparr>],
      [GetUserOauthAccessToken ''owner'', EventsList ''owner'' (mondayAt 9 30) (mondayAt 10 0)])"
  by code_simp

lemma scenarioB_windows:
  "getAvailabilities utcServer (groupBy (availabilities scenarioSchedule) dayOfWeek)
      (Some (mondayAt 9 30)) (timezone scenarioSchedule) =
     [\<lparr>istart = Some (mondayAt 9 0), iend = Some (mondayAt 17 0)\<rparr>]"
  by code_simp



lemma late_slots_half_hour:
  "getValidTimesFromSchedule utcServer scenarioB [Some (mondayAt 16 30), Some (mondayAt 16 45)]
      (halfHourEvent\<lparr>durationInMinutes := 30\<rparr>) =
     (Inr [Some (mondayAt 16 30)],
      [FindSchedule ''owner'', GetUserOauthAccessToken ''owner'',
       EventsList ''owner'' (mondayAt 16 30) (mondayAt 16 45)])"
  by code_simp

lemma late_slots_quarter_hour:
  "getValidTimesFromSchedule utcServer scenarioB [Some (mondayAt 16 30), Some (mondayAt 16 45)]
      (halfHourEvent\<lparr>durationInMinutes := 15\<rparr>) =
     (Inr [Some (mondayAt 16 30), Some (mondayAt 16 45)],
      [FindSchedule ''owner'', GetUserOauthAccessToken ''owner'',
       EventsList ''owner'' (mondayAt 16 30) (mondayAt 16 45)])"
  by code_simp




section \<open>The claims about the resolver\<close>

text \<open>
  C8. Whatever the candidates, the rules, the zone, the calendar and the duration are,
  a list that the resolver returns is an order-preserving subsequence of the candidates:
  every returned instant is a candidate, the order is that of the candidates, and no
  instant is returned more often than it occurs among the candidates.
\<close>

theorem resolver_subsequence:
  assumes "getValidTimesFromSchedule rt w timesInOrder event = (Inr out, fx)"
  shows "subseq out timesInOrder \<and> set out \<subseteq> set timesInOrder \<and>
         (\<forall>x. count_list out x \<le> count_list timesInOrder x)"
proof (cases "out = []")
  case True
  then show ?thesis by simp
next
  case False
  from assms False obtain P where "out = filter P timesInOrder"
    by (rule resolver_result)
  then show ?thesis
    by (simp add: count_list_filter_le)
qed

theorem resolver_subsequence_witness:
  "subseq [Some (mondayAt 9 30)] [Some (mondayAt 9 30), Some (mondayAt 10 0)] \<and>
   set [Some (mondayAt 9 30)] \<subseteq> set [Some (mondayAt 9 30), Some (mondayAt 10 0)] \<and>
   count_list [Some (mondayAt 9 30)] (Some (mondayAt 10 0)) \<le>
     count_list [Some (mondayAt 9 30), Some (mondayAt 10 0)] (Some (mondayAt 10 0))"
  using resolver_subsequence [OF scenarioB_run] by blast

text \<open>
  C3. For every instant \<open>t\<close> that the resolver returns, no busy interval of the calendar
  overlaps the proposed meeting under the strict test
  \<open>busy.start < t + duration \<and> busy.end > t\<close>. A busy interval that only touches the
  proposed meeting (it starts where the meeting ends, or ends where the meeting starts)
  does not change the decision for \<open>t\<close>. Here a busy interval has its start not after
  its end and the duration is not negative.
\<close>

theorem no_busy_overlap:
  "(getValidTimesFromSchedule rt w timesInOrder event = (Inr out, fx) \<and> Some t \<in> set out \<longrightarrow>
      (\<exists>eventTimes fx'.
          getCalendarEventTimes rt w (clerkUserId event) (hd timesInOrder) (last timesInOrder)
            = (Inr eventTimes, fx') \<and>
          (\<forall>busy \<in> set eventTimes. \<forall>s e. istart busy = Some s \<and> iend busy = Some e \<longrightarrow>
              \<not> (s < addMinutes t (durationInMinutes event) \<and> e > t)))) \<and>
   (s' \<le> e' \<and> 0 \<le> d \<and> (s' = addMinutes t' d \<or> e' = t') \<longrightarrow>
      keepTime rt g tz (\<lparr>istart = Some s', iend = Some e'\<rparr> # others) d (Some t') =
      keepTime rt g tz others d (Some t'))"
proof (intro conjI impI)
  assume a: "getValidTimesFromSchedule rt w timesInOrder event = (Inr out, fx) \<and> Some t \<in> set out"
  then have ne: "out \<noteq> []" by auto
  from conjunct1 [OF a] ne obtain schedule eventTimes fx'
    where sch: "findSchedule w (clerkUserId event) = Inr (Some schedule)"
      and ev: "getCalendarEventTimes rt w (clerkUserId event) (hd timesInOrder) (last timesInOrder)
             = (Inr eventTimes, fx')"
      and fx: "fx = FindSchedule (clerkUserId event) # fx'"
      and out: "out = filter (keepTime rt (groupBy (availabilities schedule) dayOfWeek)
                           (timezone schedule) eventTimes (durationInMinutes event))
                   timesInOrder"
    by (rule resolver_result)
  from a out have "keepTime rt (groupBy (availabilities schedule) dayOfWeek)
                           (timezone schedule) eventTimes (durationInMinutes event) (Some t)"
    by simp
  then have "\<forall>busy \<in> set eventTimes. \<forall>s e. istart busy = Some s \<and> iend busy = Some e \<longrightarrow>
              \<not> (s < addMinutes t (durationInMinutes event) \<and> e > t)"
    using keepTime_busy by blast
  with ev show "\<exists>eventTimes fx'.
          getCalendarEventTimes rt w (clerkUserId event) (hd timesInOrder) (last timesInOrder)
            = (Inr eventTimes, fx') \<and>
          (\<forall>busy \<in> set eventTimes. \<forall>s e. istart busy = Some s \<and> iend busy = Some e \<longrightarrow>
              \<not> (s < addMinutes t (durationInMinutes event) \<and> e > t))"
    by blast
next
  assume "s' \<le> e' \<and> 0 \<le> d \<and> (s' = addMinutes t' d \<or> e' = t')"
  then have "\<not> areIntervalsOverlapping \<lparr>istart = Some s', iend = Some e'\<rparr>
           \<lparr>istart = Some t', iend = Some (addMinutes t' d)\<rparr>"
    using touching_no_overlap by blast
  then show "keepTime rt g tz (\<lparr>istart = Some s', iend = Some e'\<rparr> # others) d (Some t') =
      keepTime rt g tz others d (Some t')"
    by (simp add: keepTime_def Let_def)
qed


theorem no_busy_overlap_witness:
  "getValidTimesFromSchedule utcServer scenarioB [Some (mondayAt 9 30), Some (mondayAt 10 0)] halfHourEvent =
     (Inr [Some (mondayAt 9 30)],
      [FindSchedule ''owner'', GetUserOauthAccessToken ''owner'',
       EventsList ''owner'' (mondayAt 9 30) (mondayAt 10 0)]) \<and>
   \<not> (mondayAt 10 0 < addMinutes (mondayAt 9 30) (durationInMinutes halfHourEvent) \<and>
      mondayAt 10 30 > mondayAt 9 30) \<and>
   keepTime utcServer (groupBy (availabilities scenarioSchedule) dayOfWeek) ''UTC''
     [\<lparr>istart = Some (mondayAt 10 0), iend = Some (mondayAt 10 30)\<rparr>] 30
     (Some (mondayAt 9 30)) =
   keepTime utcServer (groupBy (availabilities scenarioSchedule) dayOfWeek) ''UTC'' [] 30
     (Some (mondayAt 9 30))"
proof -
  have "\<exists>eventTimes fx'.
          getCalendarEventTimes utcServer scenarioB (clerkUserId halfHourEvent)
            (hd [Some (mondayAt 9 30), Some (mondayAt 10 0)]) (last [Some (mondayAt 9 30), Some (mondayAt 10 0)])
            = (Inr eventTimes, fx') \<and>
          (\<forall>busy \<in> set eventTimes. \<forall>s e. istart busy = Some s \<and> iend busy = Some e \<longrightarrow>
              \<not> (s < addMinutes (mondayAt 9 30) (durationInMinutes halfHourEvent) \<and>
                 e > mondayAt 9 30))"
    using no_busy_overlap [where rt = utcServer and w = scenarioB
        and timesInOrder = "[Some (mondayAt 9 30), Some (mondayAt 10 0)]" and event = halfHourEvent
        and out = "[Some (mondayAt 9 30)]" and t = "mondayAt 9 30"] scenarioB_run
    by simp
  then have a: "\<not> (mondayAt 10 0 < addMinutes (mondayAt 9 30) (durationInMinutes halfHourEvent) \<and>
      mondayAt 10 30 > mondayAt 9 30)"
    unfolding scenarioB_busy by simp
  have "mondayAt 10 0 \<le> mondayAt 10 30 \<and> (0::int) \<le> 30 \<and>
        (mondayAt 10 0 = addMinutes (mondayAt 9 30) 30 \<or> mondayAt 10 30 = mondayAt 9 30)"
    by (simp add: mondayAt_def addMinutes_def)
  then have b: "keepTime utcServer (groupBy (availabilities scenarioSchedule) dayOfWeek) ''UTC''
     [\<lparr>istart = Some (mondayAt 10 0), iend = Some (mondayAt 10 30)\<rparr>] 30
     (Some (mondayAt 9 30)) =
   keepTime utcServer (groupBy (availabilities scenarioSchedule) dayOfWeek) ''UTC'' [] 30
     (Some (mondayAt 9 30))"
    using no_busy_overlap [where s' = "mondayAt 10 0" and e' = "mondayAt 10 30" and d = 30
        and t' = "mondayAt 9 30" and rt = utcServer and others = "[]" and tz = "''UTC''"
        and g = "groupBy (availabilities scenarioSchedule) dayOfWeek"]
    by blast
  from a b scenarioB_run show ?thesis by simp
qed




text \<open>
  C5. With the candidates, the rules, the zone and the calendar fixed, a longer duration
  never adds an instant: for durations \<open>0 \<le> d1 \<le> d2\<close>, when the resolver returns a list
  for \<open>d2\<close> it returns one for \<open>d1\<close> with the same calls made, and the list for \<open>d2\<close>
  is a subsequence of the list for \<open>d1\<close>, so it is no longer.
\<close>

theorem duration_antitone:
  assumes d1: "0 \<le> d1" and le: "d1 \<le> d2"
    and run2: "getValidTimesFromSchedule rt w timesInOrder (event\<lparr>durationInMinutes := d2\<rparr>)
                 = (Inr out2, fx)"
  shows "\<exists>out1. getValidTimesFromSchedule rt w timesInOrder (event\<lparr>durationInMinutes := d1\<rparr>)
                 = (Inr out1, fx) \<and>
           set out2 \<subseteq> set out1 \<and> subseq out2 out1 \<and> length out2 \<le> length out1"
proof (cases "timesInOrder = []")
  case True
  with run2 show ?thesis
    by (simp add: getValidTimesFromSchedule_def)
next
  case False
  let ?keep = "\<lambda>schedule eventTimes d.
      keepTime rt (groupBy (availabilities schedule) dayOfWeek) (timezone schedule) eventTimes d"
  have mono: "subseq (filter (?keep schedule eventTimes d2) timesInOrder)
                (filter (?keep schedule eventTimes d1) timesInOrder)" for schedule eventTimes
    by (rule subseq_filter_mono) (rule keepTime_antitone [OF d1 le])
  have sub: "set ys \<subseteq> set zs \<and> length ys \<le> length zs" if "subseq ys zs"
    for ys zs :: "jsdate list"
    using that by (auto dest: list_emb_length list_emb_set)
  have user: "clerkUserId (event\<lparr>durationInMinutes := d\<rparr>) = clerkUserId event"
    and dur: "durationInMinutes (event\<lparr>durationInMinutes := d\<rparr>) = d" for d
    by simp_all
  note eq = getValidTimesFromSchedule_nonempty [OF False, of rt w "event\<lparr>durationInMinutes := d\<rparr>" for d,
      unfolded user dur]
  show ?thesis
  proof (cases "findSchedule w (clerkUserId event)")
    case (Inl e)
    with run2 show ?thesis by (simp add: eq)
  next
    case (Inr found)
    show ?thesis
    proof (cases found)
      case None
      with Inr run2 show ?thesis by (simp add: eq)
    next
      case (Some schedule)
      obtain r fx' where cal: "getCalendarEventTimes rt w (clerkUserId event) (hd timesInOrder)
          (last timesInOrder) = (r, fx')"
        by (cases "getCalendarEventTimes rt w (clerkUserId event) (hd timesInOrder)
          (last timesInOrder)")
      show ?thesis
      proof (cases r)
        case (Inl e)
        with Inr Some cal run2 show ?thesis by (simp add: eq)
      next
        case (Inr eventTimes)
        from \<open>findSchedule w (clerkUserId event) = Inr found\<close> Some cal Inr run2
        have out2: "out2 = filter (?keep schedule eventTimes d2) timesInOrder"
          and fx: "fx = FindSchedule (clerkUserId event) # fx'"
          by (simp_all add: eq)
        from \<open>findSchedule w (clerkUserId event) = Inr found\<close> Some cal Inr
        have run1: "getValidTimesFromSchedule rt w timesInOrder (event\<lparr>durationInMinutes := d1\<rparr>)
           = (Inr (filter (?keep schedule eventTimes d1) timesInOrder), fx)"
          by (simp add: eq fx)
        from sub [OF mono [of schedule eventTimes]] mono [of schedule eventTimes] run1 out2
        show ?thesis by simp
      qed
    qed
  qed
qed

theorem duration_antitone_witness:
  "getValidTimesFromSchedule utcServer scenarioB [Some (mondayAt 16 30), Some (mondayAt 16 45)]
      (halfHourEvent\<lparr>durationInMinutes := 15\<rparr>) =
     (Inr [Some (mondayAt 16 30), Some (mondayAt 16 45)],
      [FindSchedule ''owner'', GetUserOauthAccessToken ''owner'',
       EventsList ''owner'' (mondayAt 16 30) (mondayAt 16 45)]) \<and>
   subseq [Some (mondayAt 16 30)] [Some (mondayAt 16 30), Some (mondayAt 16 45)] \<and>
   length [Some (mondayAt 16 30)] \<le> length [Some (mondayAt 16 30), Some (mondayAt 16 45)]"
proof -
  have "(0::int) \<le> 15" and "(15::int) \<le> 30" by simp_all
  from duration_antitone [OF this late_slots_half_hour]
  show ?thesis
    by (simp add: late_slots_quarter_hour)
qed

lemma keepTime_no_rules: "\<not> keepTime rt (groupBy [] f) tz eventTimes d x"
  by (simp add: keepTime_def getAvailabilities_def groupBy_def Let_def split: option.splits)

lemma emptyRulesWorld_fetch:
  "getCalendarEventTimes utcServer emptyRulesWorld ''owner''
     (Some (mondayAt 9 0)) (Some (mondayAt 9 0)) =
   (Inr [], [GetUserOauthAccessToken ''owner'', EventsList ''owner'' (mondayAt 9 0) (mondayAt 9 0)])"
  by code_simp


text \<open>
  C1. The day of the week of a candidate is read by \<open>isMonday\<close> \<dots> \<open>isSunday\<close> on the
  wall clock of the server process, not on that of the schedule's zone.

  On a server on UTC, with the owner's rule for Sunday 20:00 to 23:00 in New York: the
  instant Monday 10 June 2024 01:00 UTC is Sunday 21:00 in New York (\<open>fromZonedTime\<close> of
  that reading gives the instant back) and is classified as Monday. The Sunday rule is
  not looked at, no window is computed and the candidate is dropped, while the Sunday
  window of that rule, Monday 00:00 to 03:00 UTC, holds the whole half-hour meeting.

  With the owner's rule for Monday 00:00 to 02:00 in New York and the candidate Monday
  00:30 in New York (04:30 UTC): a server on Pacific time classifies the candidate as
  Sunday and drops it; a server on UTC keeps it.
\<close>

theorem day_of_week_in_server_zone:
  "fromZonedTime utcServer (Some (mondayAt 1 0 - 14400000)) ''America/New_York'' =
     Some (mondayAt 1 0) \<and>
   isSunday utcServer (Some (mondayAt 1 0 - 14400000)) \<and>
   isMonday utcServer (Some (mondayAt 1 0)) \<and>
   getAvailabilities utcServer (groupBy (availabilities eveningSchedule) dayOfWeek)
     (Some (mondayAt 1 0)) (timezone eveningSchedule) = [] \<and>
   getAvailabilities utcServer (groupBy (availabilities eveningSchedule) dayOfWeek)
     (Some (mondayAt 1 0 - 14400000)) (timezone eveningSchedule) =
     [\<lparr>istart = Some (mondayAt 0 0), iend = Some (mondayAt 3 0)\<rparr>] \<and>
   getValidTimesFromSchedule utcServer eveningWorld [Some (mondayAt 1 0)] halfHourEvent =
     (Inr [], [FindSchedule ''owner'', GetUserOauthAccessToken ''owner'',
               EventsList ''owner'' (mondayAt 1 0) (mondayAt 1 0)]) \<and>
   fromZonedTime utcServer (Some (mondayAt 0 30)) ''America/New_York'' = Some (mondayAt 4 30) \<and>
   isSunday pacificServer (Some (mondayAt 4 30)) \<and>
   getValidTimesFromSchedule pacificServer midnightWorld [Some (mondayAt 4 30)] halfHourEvent =
     (Inr [], [FindSchedule ''owner'', GetUserOauthAccessToken ''owner'',
               EventsList ''owner'' (mondayAt 4 30) (mondayAt 4 30)]) \<and>
   getValidTimesFromSchedule utcServer midnightWorld [Some (mondayAt 4 30)] halfHourEvent =
     (Inr [Some (mondayAt 4 30)], [FindSchedule ''owner'', GetUserOauthAccessToken ''owner'',
               EventsList ''owner'' (mondayAt 4 30) (mondayAt 4 30)])"
  by code_simp

text \<open>
  C6. With an empty candidate list the resolver returns the empty list and makes no
  call. When the owner has no schedule it returns the empty list after the schedule
  lookup alone. When the schedule has no rule it fetches the calendar all the same:
  it returns the empty list when the fetch succeeds, and the error of the fetch when it
  fails.
\<close>

theorem empty_inputs:
  "getValidTimesFromSchedule rt w [] event = (Inr [], []) \<and>
   (findSchedule w (clerkUserId event) = Inr None \<and> timesInOrder \<noteq> [] \<longrightarrow>
      getValidTimesFromSchedule rt w timesInOrder event =
        (Inr [], [FindSchedule (clerkUserId event)])) \<and>
   (findSchedule w (clerkUserId event) = Inr (Some schedule) \<and> availabilities schedule = [] \<and>
    timesInOrder \<noteq> [] \<longrightarrow>
      (case getCalendarEventTimes rt w (clerkUserId event) (hd timesInOrder) (last timesInOrder) of
         (Inl e, fx) \<Rightarrow>
           getValidTimesFromSchedule rt w timesInOrder event =
             (Inl e, FindSchedule (clerkUserId event) # fx)
       | (Inr eventTimes, fx) \<Rightarrow>
           getValidTimesFromSchedule rt w timesInOrder event =
             (Inr [], FindSchedule (clerkUserId event) # fx)))"
proof (intro conjI impI)
  show "getValidTimesFromSchedule rt w [] event = (Inr [], [])"
    by (simp add: getValidTimesFromSchedule_def)
next
  assume "findSchedule w (clerkUserId event) = Inr None \<and> timesInOrder \<noteq> []"
  then show "getValidTimesFromSchedule rt w timesInOrder event =
        (Inr [], [FindSchedule (clerkUserId event)])"
    by (simp add: getValidTimesFromSchedule_nonempty)
next
  assume a: "findSchedule w (clerkUserId event) = Inr (Some schedule) \<and>
    availabilities schedule = [] \<and> timesInOrder \<noteq> []"
  have "filter (keepTime rt (groupBy [] dayOfWeek) tz eventTimes d) timesInOrder = []"
    for tz eventTimes d
    by (simp add: keepTime_no_rules)
  with a show "case getCalendarEventTimes rt w (clerkUserId event) (hd timesInOrder) (last timesInOrder) of
         (Inl e, fx) \<Rightarrow>
           getValidTimesFromSchedule rt w timesInOrder event =
             (Inl e, FindSchedule (clerkUserId event) # fx)
       | (Inr eventTimes, fx) \<Rightarrow>
           getValidTimesFromSchedule rt w timesInOrder event =
             (Inr [], FindSchedule (clerkUserId event) # fx)"
    by (simp add: getValidTimesFromSchedule_nonempty split: prod.splits sum.splits)
qed


theorem empty_inputs_witness:
  "getValidTimesFromSchedule utcServer noScheduleWorld [Some (mondayAt 9 0)] halfHourEvent =
     (Inr [], [FindSchedule ''owner'']) \<and>
   getValidTimesFromSchedule utcServer emptyRulesWorld [Some (mondayAt 9 0)] halfHourEvent =
     (Inr [], [FindSchedule ''owner'', GetUserOauthAccessToken ''owner'',
               EventsList ''owner'' (mondayAt 9 0) (mondayAt 9 0)])"
proof -
  have a: "findSchedule noScheduleWorld (clerkUserId halfHourEvent) = Inr None \<and>
           [Some (mondayAt 9 0)] \<noteq> []"
    by (simp add: noScheduleWorld_def worldWith_def)
  have b: "findSchedule emptyRulesWorld (clerkUserId halfHourEvent) = Inr (Some emptySchedule) \<and>
           availabilities emptySchedule = [] \<and> [Some (mondayAt 9 0)] \<noteq> []"
    by (simp add: emptyRulesWorld_def worldWith_def halfHourEvent_def emptySchedule_def)
  have u: "clerkUserId halfHourEvent = ''owner''"
    by (simp add: halfHourEvent_def)
  from empty_inputs [of utcServer noScheduleWorld halfHourEvent "[Some (mondayAt 9 0)]"] a
  have 1: "getValidTimesFromSchedule utcServer noScheduleWorld [Some (mondayAt 9 0)] halfHourEvent =
     (Inr [], [FindSchedule ''owner''])"
    by (simp add: u)
  from empty_inputs [of utcServer emptyRulesWorld halfHourEvent "[Some (mondayAt 9 0)]" emptySchedule] b
  have 2: "getValidTimesFromSchedule utcServer emptyRulesWorld [Some (mondayAt 9 0)] halfHourEvent =
     (Inr [], [FindSchedule ''owner'', GetUserOauthAccessToken ''owner'',
               EventsList ''owner'' (mondayAt 9 0) (mondayAt 9 0)])"
    by (simp add: emptyRulesWorld_fetch u)
  from 1 2 show ?thesis by simp
qed


text \<open>
  C6 as it was stated fails where the owner has a schedule without rules and no Google
  token: the resolver throws the error of the calendar fetch.
\<close>

theorem empty_rules_counterexample:
  "findSchedule noTokenWorld (clerkUserId halfHourEvent) = Inr (Some emptySchedule) \<and>
   availabilities emptySchedule = [] \<and>
   getValidTimesFromSchedule utcServer noTokenWorld [Some (mondayAt 9 0)] halfHourEvent =
     (Inl (Error (''Failed to fetch calendar events: '' @ ''Failed to get OAuth client: '' @
                  ''No OAuth data or token found for the user.'')),
      [FindSchedule ''owner'', GetUserOauthAccessToken ''owner''])"
  by code_simp



section \<open>The claims about the commit\<close>

lemma getOAuthClient_effects: "snd (getOAuthClient w user) = [GetUserOauthAccessToken user]"
  by (simp add: getOAuthClient_def split: sum.splits js_error.splits list.splits)

lemma getCalendarEventTimes_no_write:
  "EventsInsert request \<notin> set (snd (getCalendarEventTimes rt w user a b))"
proof -
  obtain r where r: "getOAuthClient w user = (r, [GetUserOauthAccessToken user])"
    using getOAuthClient_effects [of w user] by (cases "getOAuthClient w user") simp
  show ?thesis
    by (auto simp: getCalendarEventTimes_def r split: sum.splits js_error.splits option.splits)
qed

lemma getValidTimesFromSchedule_no_write:
  "EventsInsert request \<notin> set (snd (getValidTimesFromSchedule rt w timesInOrder event))"
proof (cases "timesInOrder = []")
  case True
  then show ?thesis by (simp add: getValidTimesFromSchedule_def)
next
  case False
  obtain r fx where c: "getCalendarEventTimes rt w (clerkUserId event) (hd timesInOrder)
      (last timesInOrder) = (r, fx)"
    by (cases "getCalendarEventTimes rt w (clerkUserId event) (hd timesInOrder)
      (last timesInOrder)")
  with getCalendarEventTimes_no_write [of request rt w "clerkUserId event" "hd timesInOrder"
      "last timesInOrder"]
  have "EventsInsert request \<notin> set fx"
    by simp
  then show ?thesis
    unfolding getValidTimesFromSchedule_nonempty [OF False] c
    by (auto split: sum.splits option.splits simp del: filter.simps)
qed

lemma recheck_single:
  assumes "getValidTimesFromSchedule rt w [t] event = (Inr out, fx)"
  shows "out = [] \<or> out = [t]"
proof (cases "out = []")
  case True
  then show ?thesis by simp
next
  case False
  from assms False obtain P where "out = filter P [t]"
    by (rule resolver_result)
  then show ?thesis by (simp split: if_splits)
qed


lemma createMeeting_found:
  assumes valid: "meetingActionSchema rt unsafeData"
    and rows: "eventTable w = Inr rows"
    and found: "find (\<lambda>e. isActive e \<and> clerkUserId e = m_clerkUserId unsafeData \<and>
                       eventRowId e = m_eventId unsafeData) rows = Some event"
  shows "createMeeting rt w unsafeData =
     (let failed = (\<lambda>m fx.
            (Inl (Error (''Failed to create meeting: '' @ messageOr m)),
             fx @ [ConsoleError (''Error creating meeting: '' @ messageOr m)]));
          lookup = FindEvent (m_clerkUserId unsafeData) (m_eventId unsafeData);
          startInTimezone =
            fromZonedTime rt (Some (m_startTime unsafeData)) (m_timezone unsafeData)
      in case getValidTimesFromSchedule rt w [startInTimezone] event of
           (Inl (Error m), fx) \<Rightarrow> failed m (lookup # fx)
         | (Inr validTimes, fx) \<Rightarrow>
             if length validTimes = 0
             then failed ''Selected time is not valid.'' (lookup # fx)
             else
               (case createCalendarEvent w
                       \<lparr>c_clerkUserId = m_clerkUserId unsafeData,
                        c_guestEmail = m_guestEmail unsafeData,
                        c_startTime = startInTimezone,
                        c_durationInMinutes = durationInMinutes event\<rparr> of
                  (Inl (Error m), fx') \<Rightarrow> failed m (lookup # fx @ fx')
                | (Inr u, fx') \<Rightarrow>
                    (Inr (m_clerkUserId unsafeData, m_eventId unsafeData,
                          m_startTime unsafeData),
                     lookup # fx @ fx')))"
  unfolding createMeeting_def Let_def
  by (simp only: valid rows found not_True_eq_False if_False sum.case option.case)

lemma createMeeting_not_found_no_write:
  assumes "\<not> (meetingActionSchema rt d \<and> (\<exists>event. bookedEvent w d = Some event))"
  shows "EventsInsert request \<notin> set (snd (createMeeting rt w d))"
  using assms
  by (auto simp: createMeeting_def Let_def split: sum.splits js_error.splits option.splits)

lemma createMeeting_recheck:
  assumes valid: "meetingActionSchema rt d" and found: "bookedEvent w d = Some event"
    and run: "getValidTimesFromSchedule rt w [chosenInstant rt d] event = (r, fx)"
  shows "(\<exists>rest. snd (createMeeting rt w d) =
            FindEvent (m_clerkUserId d) (m_eventId d) # fx @ rest)"
    and "r = Inr [] \<Longrightarrow>
           createMeeting rt w d =
             (Inl (Error ''Failed to create meeting: Selected time is not valid.''),
              FindEvent (m_clerkUserId d) (m_eventId d) # fx @
                [ConsoleError ''Error creating meeting: Selected time is not valid.''])"
    and "EventsInsert request \<in> set (snd (createMeeting rt w d)) \<Longrightarrow>
           r = Inr [chosenInstant rt d]"
proof -
  from found obtain rows where rows: "eventTable w = Inr rows"
    and f: "find (\<lambda>e. isActive e \<and> clerkUserId e = m_clerkUserId d \<and>
                       eventRowId e = m_eventId d) rows = Some event"
    by (auto split: sum.splits)
  note eq = createMeeting_found [OF valid rows f, unfolded Let_def run]
  have nw: "EventsInsert request \<notin> set fx"
    using getValidTimesFromSchedule_no_write [of request rt w "[chosenInstant rt d]" event] run
    by simp
  show "\<exists>rest. snd (createMeeting rt w d) =
            FindEvent (m_clerkUserId d) (m_eventId d) # fx @ rest"
    unfolding eq
    by (auto split: sum.splits js_error.splits prod.splits)
  show "createMeeting rt w d =
             (Inl (Error ''Failed to create meeting: Selected time is not valid.''),
              FindEvent (m_clerkUserId d) (m_eventId d) # fx @
                [ConsoleError ''Error creating meeting: Selected time is not valid.''])"
    if "r = Inr []"
    unfolding eq using that by (simp add: messageOr_def)
  show "r = Inr [chosenInstant rt d]"
    if w: "EventsInsert request \<in> set (snd (createMeeting rt w d))"
  proof (cases r)
    case (Inl e)
    with w nw show ?thesis
      unfolding eq by (cases e) simp
  next
    case (Inr validTimes)
    with run recheck_single have "validTimes = [] \<or> validTimes = [chosenInstant rt d]"
      by blast
    moreover have "validTimes \<noteq> []"
      using w nw Inr unfolding eq by auto
    ultimately show ?thesis using Inr by simp
  qed
qed

lemma booking_late_valid:
  "meetingActionSchema utcServer (bookingAt (mondayAt 10 0)) \<and>
   bookedEvent scenarioB (bookingAt (mondayAt 10 0)) = Some halfHourEvent"
  by code_simp

lemma booking_late_recheck:
  "getValidTimesFromSchedule utcServer scenarioB
      [chosenInstant utcServer (bookingAt (mondayAt 10 0))] halfHourEvent =
     (Inr [], [FindSchedule ''owner'', GetUserOauthAccessToken ''owner'',
               EventsList ''owner'' (mondayAt 10 0) (mondayAt 10 0)])"
  by code_simp

lemma booking_early_written:
  "EventsInsert \<lparr>calendarOwner = ''owner'', guestAddress = ''guest@example.org'',
                 requestStart = mondayAt 9 30, requestEnd = mondayAt 10 0\<rparr>
     \<in> set (snd (createMeeting utcServer scenarioB (bookingAt (mondayAt 9 30))))"
  by code_simp

lemma booking_early_event:
  "bookedEvent scenarioB (bookingAt (mondayAt 9 30)) = Some halfHourEvent"
  by code_simp

lemma booking_early_instant:
  "chosenInstant utcServer (bookingAt (mondayAt 9 30)) = Some (mondayAt 9 30)"
  by code_simp

text \<open>
  C7. \<^verbatim>\<open>createMeeting\<close> runs the resolver on the one chosen instant, against the calendar
  as it is fetched by that run, after its event lookup and before anything else. A
  calendar event is inserted only when that run has returned the instant. When the run
  returns the empty list, \<^verbatim>\<open>createMeeting\<close> throws, and beyond the lookups it has only
  logged the error: nothing is written.
\<close>

theorem commit_recheck:
  "(EventsInsert request \<in> set (snd (createMeeting rt w d)) \<longrightarrow>
      meetingActionSchema rt d \<and>
      (\<exists>event. bookedEvent w d = Some event \<and>
         fst (getValidTimesFromSchedule rt w [chosenInstant rt d] event)
           = Inr [chosenInstant rt d])) \<and>
   (meetingActionSchema rt d \<and> bookedEvent w d = Some booked \<longrightarrow>
      (\<exists>rest. snd (createMeeting rt w d) =
         FindEvent (m_clerkUserId d) (m_eventId d) #
         snd (getValidTimesFromSchedule rt w [chosenInstant rt d] booked) @ rest) \<and>
      (fst (getValidTimesFromSchedule rt w [chosenInstant rt d] booked) = Inr [] \<longrightarrow>
         createMeeting rt w d =
           (Inl (Error ''Failed to create meeting: Selected time is not valid.''),
            FindEvent (m_clerkUserId d) (m_eventId d) #
            snd (getValidTimesFromSchedule rt w [chosenInstant rt d] booked) @
            [ConsoleError ''Error creating meeting: Selected time is not valid.''])))"
proof (intro conjI impI)
  assume w: "EventsInsert request \<in> set (snd (createMeeting rt w d))"
  with createMeeting_not_found_no_write [of rt d w request]
  have valid: "meetingActionSchema rt d" and "\<exists>event. bookedEvent w d = Some event"
    by blast+
  then obtain event where found: "bookedEvent w d = Some event" by blast
  obtain r fx where run: "getValidTimesFromSchedule rt w [chosenInstant rt d] event = (r, fx)"
    by (cases "getValidTimesFromSchedule rt w [chosenInstant rt d] event")
  from createMeeting_recheck(3) [OF valid found run w] run found
  show "meetingActionSchema rt d" 
    and "\<exists>event. bookedEvent w d = Some event \<and>
         fst (getValidTimesFromSchedule rt w [chosenInstant rt d] event)
           = Inr [chosenInstant rt d]"
    using valid by auto
next
  assume a: "meetingActionSchema rt d \<and> bookedEvent w d = Some booked"
  obtain r fx where run: "getValidTimesFromSchedule rt w [chosenInstant rt d] booked = (r, fx)"
    by (cases "getValidTimesFromSchedule rt w [chosenInstant rt d] booked")
  from createMeeting_recheck(1) [OF conjunct1 [OF a] conjunct2 [OF a] run] run
  show "\<exists>rest. snd (createMeeting rt w d) =
         FindEvent (m_clerkUserId d) (m_eventId d) #
         snd (getValidTimesFromSchedule rt w [chosenInstant rt d] booked) @ rest"
    by simp
  assume "fst (getValidTimesFromSchedule rt w [chosenInstant rt d] booked) = Inr []"
  with createMeeting_recheck(2) [OF conjunct1 [OF a] conjunct2 [OF a] run] run
  show "createMeeting rt w d =
           (Inl (Error ''Failed to create meeting: Selected time is not valid.''),
            FindEvent (m_clerkUserId d) (m_eventId d) #
            snd (getValidTimesFromSchedule rt w [chosenInstant rt d] booked) @
            [ConsoleError ''Error creating meeting: Selected time is not valid.''])"
    by simp
qed


theorem commit_recheck_witness:
  "createMeeting utcServer scenarioB (bookingAt (mondayAt 10 0)) =
     (Inl (Error ''Failed to create meeting: Selected time is not valid.''),
      [FindEvent ''owner'' ''e1'', FindSchedule ''owner'', GetUserOauthAccessToken ''owner'',
       EventsList ''owner'' (mondayAt 10 0) (mondayAt 10 0),
       ConsoleError ''Error creating meeting: Selected time is not valid.'']) \<and>
   fst (getValidTimesFromSchedule utcServer scenarioB [Some (mondayAt 9 30)] halfHourEvent) =
     Inr [Some (mondayAt 9 30)]"
proof -
  from commit_recheck [of _ utcServer scenarioB "bookingAt (mondayAt 10 0)" halfHourEvent]
    booking_late_valid
  have 1: "createMeeting utcServer scenarioB (bookingAt (mondayAt 10 0)) =
     (Inl (Error ''Failed to create meeting: Selected time is not valid.''),
      [FindEvent ''owner'' ''e1'', FindSchedule ''owner'', GetUserOauthAccessToken ''owner'',
       EventsList ''owner'' (mondayAt 10 0) (mondayAt 10 0),
       ConsoleError ''Error creating meeting: Selected time is not valid.''])"
    unfolding booking_late_recheck by (simp add: bookingAt_def)
  from commit_recheck [of _ utcServer scenarioB "bookingAt (mondayAt 9 30)"]
    booking_early_written
  have "\<exists>event. bookedEvent scenarioB (bookingAt (mondayAt 9 30)) = Some event \<and>
         fst (getValidTimesFromSchedule utcServer scenarioB
                [chosenInstant utcServer (bookingAt (mondayAt 9 30))] event)
           = Inr [chosenInstant utcServer (bookingAt (mondayAt 9 30))]"
    by blast
  then have 2: "fst (getValidTimesFromSchedule utcServer scenarioB [Some (mondayAt 9 30)] halfHourEvent) =
     Inr [Some (mondayAt 9 30)]"
    unfolding booking_early_event booking_early_instant by simp
  from 1 2 show ?thesis by simp
qed


section \<open>The claims about the schedule form\<close>

lemma char_eq_code: "(c = d) = ((of_char c :: nat) = of_char d)"
  by simp

lemma lit_code:
  "(c = CHR ''0'') = ((of_char c :: nat) = 48)"
  "(c = CHR ''1'') = ((of_char c :: nat) = 49)"
  "(c = CHR ''2'') = ((of_char c :: nat) = 50)"
  "(c = CHR '':'') = ((of_char c :: nat) = 58)"
  by (simp_all add: char_eq_code [of c])

lemma t4: "regexTest timePattern [a, b, c, d] = timeOfDay [a, b, c, d]"
  apply (simp add: regexTest_def timePattern_def timeOfDay_def isDigit_def digitValue_def lit_code)
  apply arith
  done

lemma t5: "regexTest timePattern [a, b, c, d, e] = timeOfDay [a, b, c, d, e]"
  apply (simp add: regexTest_def timePattern_def timeOfDay_def isDigit_def digitValue_def lit_code)
  apply arith
  done

lemma t0: "regexTest timePattern [] = timeOfDay []"
  "regexTest timePattern [a] = timeOfDay [a]"
  "regexTest timePattern [a,b] = timeOfDay [a,b]"
  "regexTest timePattern [a,b,c] = timeOfDay [a,b,c]"
  by (simp_all add: regexTest_def timePattern_def timeOfDay_def)

lemma t6: "regexTest timePattern (a # b # c # d # e # f # r) = timeOfDay (a # b # c # d # e # f # r)"
  by (simp add: regexTest_def timePattern_def timeOfDay_def)


text \<open>
  C9. The pattern of \<open>startTime\<close> and \<open>endTime\<close> accepts hours of a single digit:
  \<^verbatim>\<open>9:15\<close> matches. The strings it accepts are exactly those of the form H:MM or HH:MM
  with the hours from 0 to 23 and the minutes from 00 to 59.
\<close>

theorem time_pattern_accepts:
  "regexTest timePattern ''9:15'' \<and> regexTest timePattern s = timeOfDay s"
proof
  show "regexTest timePattern ''9:15''"
    by (simp add: t4)  (simp add: timeOfDay_def isDigit_def digitValue_def)
  show "regexTest timePattern s = timeOfDay s"
  proof (cases s)
    case Nil
    then show ?thesis by (simp add: t0)
  next
    case s1: (Cons a r1)
    show ?thesis
    proof (cases r1)
      case Nil
      with s1 show ?thesis by (simp add: t0)
    next
      case s2: (Cons b r2)
      show ?thesis
      proof (cases r2)
        case Nil
        with s1 s2 show ?thesis by (simp add: t0)
      next
        case s3: (Cons c r3)
        show ?thesis
        proof (cases r3)
          case Nil
          with s1 s2 s3 show ?thesis by (simp add: t0)
        next
          case s4: (Cons d r4)
          show ?thesis
          proof (cases r4)
            case Nil
            with s1 s2 s3 s4 show ?thesis by (simp add: t4)
          next
            case s5: (Cons e r5)
            show ?thesis
            proof (cases r5)
              case Nil
              with s1 s2 s3 s4 s5 show ?thesis by (simp add: t5)
            next
              case (Cons f r6)
              with s1 s2 s3 s4 s5 show ?thesis by (simp add: t6)
            qed
          qed
        qed
      qed
    qed
  qed
qed

lemma concat_enumerate_filter:
  "concat (map (\<lambda>(i, a). if h i a then [g i] else []) (enumerate n xs)) =
     map g (filter (\<lambda>i. h i (xs ! (i - n))) [n..<n + length xs])"
proof (induction xs arbitrary: n)
  case Nil
  then show ?case by simp
next
  case (Cons x xs)
  have upt: "[n..<n + length (x # xs)] = n # [Suc n..<Suc n + length xs]"
    by (subst upt_conv_Cons) (simp_all del: upt_Suc)
  have tail: "filter (\<lambda>i. h i ((x # xs) ! (i - n))) [Suc n..<Suc n + length xs] =
        filter (\<lambda>i. h i (xs ! (i - Suc n))) [Suc n..<Suc n + length xs]"
  proof (rule filter_cong [OF refl])
    fix i assume "i \<in> set [Suc n..<Suc n + length xs]"
    then have "i - n = Suc (i - Suc n)" by auto
    then show "h i ((x # xs) ! (i - n)) = h i (xs ! (i - Suc n))" by simp
  qed
  have "concat (map (\<lambda>(i, a). if h i a then [g i] else []) (enumerate n (x # xs))) =
        (if h n x then [g n] else []) @
        map g (filter (\<lambda>i. h i (xs ! (i - Suc n))) [Suc n..<Suc n + length xs])"
    by (simp add: Cons.IH del: upt_Suc)
  also have "\<dots> = map g (filter (\<lambda>i. h i ((x # xs) ! (i - n))) (n # [Suc n..<Suc n + length xs]))"
    unfolding filter.simps tail by simp
  finally show ?case
    unfolding upt .
qed

lemma overlap_issues_of_entry:
  "filter (\<lambda>i. message i = ''Availability overlaps with another'')
     ((if p then [overlapIssue index] else []) @
      (if q then [\<lparr>message = ''End time must be after start time'',
                  pathIndex = index, pathField = ''endTime''\<rparr>] else [])) =
   (if p then [overlapIssue index] else [])"
  by (simp add: overlapIssue_def)

lemma overlap_issues:
  "filter (\<lambda>i. message i = ''Availability overlaps with another'') (superRefine rt entries) =
     map overlapIssue (filter (\<lambda>i. overlapsAt rt entries i (entries ! i)) [0..<length entries])"
proof -
  have "filter (\<lambda>i. message i = ''Availability overlaps with another'') (superRefine rt entries) =
     concat (map (\<lambda>(i, a). if overlapsAt rt entries i a then [overlapIssue i] else [])
       (enumerate 0 entries))"
    unfolding superRefine_def filter_concat map_map
    by (rule arg_cong [where f = concat], rule map_cong [OF refl])
       (auto simp: overlapIssue_def)
  then show ?thesis
    by (simp add: concat_enumerate_filter)
qed

lemma overlapsAt_iff:
  "overlapsAt rt entries index availability =
     (\<exists>j < length entries. j \<noteq> index \<and>
        dayOfWeek (entries ! j) = dayOfWeek availability \<and>
        numLess rt (timeToFloat rt (startTime (entries ! j))) (timeToFloat rt (endTime availability)) \<and>
        numLess rt (timeToFloat rt (startTime availability)) (timeToFloat rt (endTime (entries ! j))))"
  by (auto simp: overlapsAt_def list_ex_iff in_set_enumerate_eq)

lemma overlapsAt_symmetric:
  assumes "i < length entries" and "overlapsAt rt entries i (entries ! i)"
  shows "\<exists>j < length entries. j \<noteq> i \<and> overlapsAt rt entries j (entries ! j)"
proof -
  from assms(2) obtain j where j: "j < length entries" "j \<noteq> i"
    "dayOfWeek (entries ! j) = dayOfWeek (entries ! i)"
    "numLess rt (timeToFloat rt (startTime (entries ! j))) (timeToFloat rt (endTime (entries ! i)))"
    "numLess rt (timeToFloat rt (startTime (entries ! i))) (timeToFloat rt (endTime (entries ! j)))"
    unfolding overlapsAt_iff by blast
  with assms(1) have "overlapsAt rt entries j (entries ! j)"
    unfolding overlapsAt_iff [of rt entries j] by (intro exI [of _ i]) simp
  with j show ?thesis by blast
qed


lemma flagged_rules:
  "filter (\<lambda>i. overlapsAt utcServer [mondayMorning, mondayNoon] i ([mondayMorning, mondayNoon] ! i))
     [0..<length [mondayMorning, mondayNoon]] = [0, 1]"
  by code_simp

text \<open>
  C2. The validation goes through the rules in the order of the list and, for each rule,
  adds an overlap issue at that rule's start time when it overlaps some other rule of
  the same day: the overlap issues are those of the flagged indices, in increasing
  order. The test is symmetric, so a flagged rule always comes with another flagged
  rule. For Monday 09:00 to 11:00 followed by Monday 10:00 to 12:00 there are two overlap
  issues, one at each rule.
\<close>

theorem overlap_issue_per_rule:
  "filter (\<lambda>i. message i = ''Availability overlaps with another'') (superRefine rt entries) =
     map overlapIssue (filter (\<lambda>i. overlapsAt rt entries i (entries ! i)) [0..<length entries]) \<and>
   (i < length entries \<and> overlapsAt rt entries i (entries ! i) \<longrightarrow>
      (\<exists>j < length entries. j \<noteq> i \<and> overlapsAt rt entries j (entries ! j)))"
  using overlap_issues [of rt entries] overlapsAt_symmetric [of i entries rt] by blast

theorem overlap_issue_per_rule_witness:
  "filter (\<lambda>i. message i = ''Availability overlaps with another'')
     (superRefine utcServer [mondayMorning, mondayNoon]) = [overlapIssue 0, overlapIssue 1]"
  using overlap_issue_per_rule [of utcServer "[mondayMorning, mondayNoon]" 0]
  unfolding flagged_rules by simp

text \<open>
  C2 as it was stated fails on its own input: the two Monday rules give two overlap
  issues, the first one at the first rule.
\<close>

theorem two_overlap_issues:
  "superRefine utcServer [mondayMorning, mondayNoon] = [overlapIssue 0, overlapIssue 1] \<and>
   length (filter (\<lambda>i. message i = ''Availability overlaps with another'')
             (superRefine utcServer [mondayMorning, mondayNoon])) = 2"
  by code_simp

section \<open>The claim about the calendar\<close>











end
